theory Spec2Isabelle
  imports Complex_Main "HOL-Library.Word"
begin

section \<open>Data model of the panel\<close>

text \<open>
  The root component \<open>App\<close> owns all state through \<open>useState\<close> cells. The cells are
  gathered in one record, one field per cell, with the initial values of the source.
  A JavaScript string is a sequence of UTF-16 code units, modelled as a list of 16-bit
  words; \<open>js\<close> writes an ASCII literal of the source as such a list. Numbers
  (screen coordinates) are exact reals: the rounding of IEEE doubles is not modelled.
\<close>

type_synonym jsstring = "16 word list"

definition js :: "string \<Rightarrow> jsstring" where
  "js s = map (\<lambda>c. word_of_nat (of_char c)) s"

datatype scope = ScopeAll | ScopeDomain | ScopePage

datatype answer_type = Define | Elaborate | Search

record point =
  pos_x :: real
  pos_y :: real

record selection_popup =
  position :: "point option"
  popup_text :: jsstring
  visible :: bool

record app_state =
  loading :: bool
  question :: jsstring
  answer :: jsstring
  searchAnswer :: jsstring
  answerType :: "answer_type option"
  summary :: jsstring
  url :: jsstring
  showFocusModal :: bool
  searchScope :: scope
  isSummarizing :: bool
  isSummarized :: bool
  darkMode :: bool
  selectionPopup :: selection_popup

definition initial_state :: app_state where
  "initial_state =
     \<lparr> loading = False, question = [], answer = [], searchAnswer = [],
       answerType = None, summary = [], url = [], showFocusModal = False,
       searchScope = ScopePage, isSummarizing = False, isSummarized = False,
       darkMode = False,
       selectionPopup = \<lparr> position = None, popup_text = [], visible = False \<rparr> \<rparr>"

text \<open>
  What a handler does besides writing state cells: calls of the external collaborators,
  console output, the scheduled scroll, DOM and storage writes. The literals of the
  source that only label such an effect are kept as plain strings.
\<close>

datatype effect =
    PreventDefault
  | CallAnalyzeCurrentPage
  | CallAskQuestion jsstring scope
  | CallTabsQuery
  | ConsoleError string
  | ScrollToAnswer
  | AddEventListener string
  | LocalStorageSet string string
  | ClassListAdd string
  | ClassListRemove string

text \<open>How an awaited promise settles: with a value, or by rejecting.\<close>

datatype 'a settled = Resolved 'a | Rejected

section \<open>String helpers\<close>

text \<open>
  \<open>String.prototype.trim\<close> removes white space and line terminators at both ends.
  These are the code units TAB, LF, VT, FF, CR, SPACE, NO-BREAK SPACE, U+1680,
  U+2000 to U+200A, U+2028, U+2029, U+202F, U+205F, U+3000 and U+FEFF.
\<close>

definition is_ws :: "16 word \<Rightarrow> bool" where
  "is_ws c =
     (c \<in> set [0x0009, 0x000A, 0x000B, 0x000C, 0x000D, 0x0020, 0x00A0, 0x1680,
                0x2028, 0x2029, 0x202F, 0x205F, 0x3000, 0xFEFF]
      \<or> (0x2000 \<le> c \<and> c \<le> 0x200A))"

definition trim :: "jsstring \<Rightarrow> jsstring" where
  "trim s = rev (dropWhile is_ws (rev (dropWhile is_ws s)))"

section \<open>Selection tracker\<close>

text \<open>
  The fields of the \<open>DOMRect\<close> that the handler reads, the window size, and what
  \<open>window.getSelection()\<close> gives: its text and the bounding rectangle of its first
  range. \<open>sel_rect = None\<close> stands for a selection from which no rectangle is obtained;
  the handler then publishes nothing.
\<close>

record rect =
  rect_left :: real
  rect_width :: real
  rect_top :: real
  rect_bottom :: real

record viewport =
  innerWidth :: real
  innerHeight :: real

record selection =
  sel_text :: jsstring
  sel_rect :: "rect option"

definition popupWidth :: real where
  "popupWidth = 300"

definition popupHeight :: real where
  "popupHeight = 150"

text \<open>Lines 97 to 112 of \<open>handleTextSelection\<close>: the anchor of the popup.\<close>

definition anchor :: "rect \<Rightarrow> viewport \<Rightarrow> point" where
  "anchor r vp =
     (let windowWidth = innerWidth vp;
          x0 = rect_left r + rect_width r / 2;
          y0 = rect_top r;
          x = (if x0 - popupWidth / 2 < 0 then popupWidth / 2
               else if x0 + popupWidth / 2 > windowWidth then windowWidth - popupWidth / 2
               else x0);
          y = (if y0 - popupHeight < 0 then rect_bottom r + 10
               else rect_top r - 10)
      in \<lparr> pos_x = x, pos_y = y \<rparr>)"

definition hide_popup :: "app_state \<Rightarrow> app_state" where
  "hide_popup s = s\<lparr> selectionPopup := (selectionPopup s)\<lparr> visible := False \<rparr> \<rparr>"

definition handleTextSelection :: "viewport \<Rightarrow> selection option \<Rightarrow> app_state \<Rightarrow> app_state" where
  "handleTextSelection vp sel s =
     (case map_option (\<lambda>d. trim (sel_text d)) sel of
        None \<Rightarrow> hide_popup s
      | Some selectedText \<Rightarrow>
          if selectedText \<noteq> [] \<and> length selectedText > 0 then
            (case Option.bind sel sel_rect of
               None \<Rightarrow> s
             | Some r \<Rightarrow>
                 s\<lparr> selectionPopup :=
                      \<lparr> position = Some (anchor r vp),
                        popup_text = selectedText,
                        visible = True \<rparr> \<rparr>)
          else hide_popup s)"

text \<open>
  \<open>handleClickOutside\<close>: the argument is \<open>popup?.contains(event.target)\<close>, with
  \<open>None\<close> when no element of class \<open>selection-popup\<close> is in the document.
\<close>

definition handleClickOutside :: "bool option \<Rightarrow> app_state \<Rightarrow> app_state" where
  "handleClickOutside contains s =
     (if \<not> (case contains of None \<Rightarrow> False | Some b \<Rightarrow> b) then hide_popup s else s)"

section \<open>Query lifecycle\<close>

text \<open>
  An \<open>async\<close> handler runs up to its \<open>await\<close>, and later from the settled promise to
  its end; other handlers may run in between. Each is therefore two functions, and a
  third that composes them for a call that settles with nothing in between. The state
  setters write absolute values, so the second part applies to whatever the state is then.
\<close>

definition summarizeCurrentPage_begin :: "app_state \<Rightarrow> app_state \<times> effect list" where
  "summarizeCurrentPage_begin s =
     (s\<lparr> isSummarizing := True, loading := True \<rparr>, [CallAnalyzeCurrentPage])"

definition summarizeCurrentPage_resume ::
    "jsstring settled \<Rightarrow> app_state \<Rightarrow> app_state \<times> effect list" where
  "summarizeCurrentPage_resume r s =
     (case r of
        Resolved summary' \<Rightarrow>
          (s\<lparr> summary := summary', isSummarized := True,
              loading := False, isSummarizing := False \<rparr>, [])
      | Rejected \<Rightarrow>
          (s\<lparr> loading := False, isSummarizing := False \<rparr>,
           [ConsoleError ''Error analyzing page:'']))"

definition summarizeCurrentPage ::
    "jsstring settled \<Rightarrow> app_state \<Rightarrow> app_state \<times> effect list" where
  "summarizeCurrentPage r s =
     (let (s1, e1) = summarizeCurrentPage_begin s;
          (s2, e2) = summarizeCurrentPage_resume r s1
      in (s2, e1 @ e2))"

text \<open>
  \<open>handleQuestionSubmit\<close>: the first part says whether it reached the \<open>await\<close>
  (\<open>True\<close>) or returned at the guard.
\<close>

definition handleQuestionSubmit_begin :: "app_state \<Rightarrow> app_state \<times> effect list \<times> bool" where
  "handleQuestionSubmit_begin s =
     (if trim (question s) = [] then (s, [PreventDefault], False)
      else (s\<lparr> loading := True \<rparr>,
            [PreventDefault, CallAskQuestion (question s) (searchScope s)], True))"

definition handleQuestionSubmit_resume ::
    "jsstring settled \<Rightarrow> app_state \<Rightarrow> app_state \<times> effect list" where
  "handleQuestionSubmit_resume r s =
     (case r of
        Resolved response \<Rightarrow>
          (s\<lparr> answer := response, question := [], loading := False \<rparr>, [ScrollToAnswer])
      | Rejected \<Rightarrow>
          (s\<lparr> loading := False \<rparr>, [ConsoleError ''Error getting answer:'']))"

definition handleQuestionSubmit ::
    "jsstring settled \<Rightarrow> app_state \<Rightarrow> app_state \<times> effect list" where
  "handleQuestionSubmit r s =
     (let (s1, e1, awaited) = handleQuestionSubmit_begin s
      in if awaited then
           (let (s2, e2) = handleQuestionSubmit_resume r s1 in (s2, e1 @ e2))
         else (s1, e1))"

definition handleSearch :: "jsstring \<Rightarrow> app_state \<Rightarrow> app_state" where
  "handleSearch answer' s = s\<lparr> searchAnswer := answer', answerType := Some Search \<rparr>"

text \<open>
  \<open>getCurrentUrl\<close>: the promise resolves with the list of tabs, each with an optional
  \<open>url\<close>. There is no \<open>catch\<close>: a rejection leaves the state as it is.
\<close>

definition getCurrentUrl_begin :: "app_state \<Rightarrow> app_state \<times> effect list" where
  "getCurrentUrl_begin s = (s, [CallTabsQuery])"

definition getCurrentUrl_resume :: "jsstring option list settled \<Rightarrow> app_state \<Rightarrow> app_state" where
  "getCurrentUrl_resume r s =
     (case r of
        Resolved tabs \<Rightarrow>
          (case tabs of
             [] \<Rightarrow> s
           | t # _ \<Rightarrow>
               (case t of
                  None \<Rightarrow> s
                | Some u \<Rightarrow> if u \<noteq> [] then s\<lparr> url := u \<rparr> else s))
      | Rejected \<Rightarrow> s)"

definition toggleDarkMode :: "app_state \<Rightarrow> app_state \<times> effect list" where
  "toggleDarkMode s =
     (let newDarkMode = \<not> darkMode s
      in (s\<lparr> darkMode := newDarkMode \<rparr>,
          [LocalStorageSet ''darkMode'' (if newDarkMode then ''true'' else ''false''),
           if newDarkMode then ClassListAdd ''dark'' else ClassListRemove ''dark'']))"

text \<open>
  The mount effect, up to its first suspension; the argument is what
  \<open>localStorage.getItem('darkMode')\<close> returns.
\<close>

definition mount :: "jsstring option \<Rightarrow> app_state \<Rightarrow> app_state \<times> effect list" where
  "mount item s =
     (let (s1, e1) = summarizeCurrentPage_begin s;
          (s2, e2) = getCurrentUrl_begin s1;
          savedDarkMode = (item = Some (js ''true''))
      in (s2\<lparr> darkMode := savedDarkMode \<rparr>,
          e1 @ e2 @ [AddEventListener ''mouseup'', AddEventListener ''mousedown'']
             @ (if savedDarkMode then [ClassListAdd ''dark''] else [])))"

section \<open>View reconciliation\<close>

text \<open>
  What the \<open>return\<close> of \<open>App\<close> renders of the answer slots: the summary block, the
  \<open>AnswerAnimation\<close> with its \<open>type\<close>, the answer block and the search block.
\<close>

record render_plan =
  show_summary :: bool
  indicator :: "answer_type option"
  show_answer :: bool
  show_search :: bool

definition render :: "app_state \<Rightarrow> render_plan" where
  "render s =
     \<lparr> show_summary = (summary s \<noteq> []),
       indicator = (if loading s \<and> answerType s \<noteq> None \<and> \<not> (answer s \<noteq> [])
                    then answerType s else None),
       show_answer = (answer s \<noteq> []),
       show_search = (searchAnswer s \<noteq> []) \<rparr>"

section \<open>The panel as an event system\<close>

text \<open>
  The panel together with the promises in flight and the effects performed so far.
  An event is a user action, a DOM signal or the settling of a promise in flight
  (chosen by its index, in any order: nothing fences or cancels a request).
\<close>

datatype pending = PendingAnalyze | PendingAsk | PendingTabs

record world =
  app :: app_state
  inflight :: "pending list"
  effects :: "effect list"

datatype event =
    Mount "jsstring option"
  | MouseUp viewport "selection option"
  | MouseDown "bool option"
  | SummarizeClick
  | ChangeQuestion jsstring
  | SubmitQuestion
  | SettleText nat "jsstring settled"
  | SettleTabs nat "jsstring option list settled"
  | DefineClick
  | ExplainClick
  | SearchDone jsstring
  | ToggleDarkModeClick
  | FocusClick
  | FocusClose
  | ScopeSelect scope

definition initial_world :: world where
  "initial_world = \<lparr> app = initial_state, inflight = [], effects = [] \<rparr>"

fun pending_of :: "effect \<Rightarrow> pending option" where
  "pending_of CallAnalyzeCurrentPage = Some PendingAnalyze"
| "pending_of (CallAskQuestion q sc) = Some PendingAsk"
| "pending_of CallTabsQuery = Some PendingTabs"
| "pending_of _ = None"

definition perform :: "app_state \<times> effect list \<Rightarrow> world \<Rightarrow> world" where
  "perform p w =
     w\<lparr> app := fst p,
        inflight := inflight w @ List.map_filter pending_of (snd p),
        effects := effects w @ snd p \<rparr>"

definition settle :: "nat \<Rightarrow> world \<Rightarrow> world" where
  "settle n w = w\<lparr> inflight := take n (inflight w) @ drop (Suc n) (inflight w) \<rparr>"

fun step :: "event \<Rightarrow> world \<Rightarrow> world" where
  "step (Mount item) w = perform (mount item (app w)) w"
| "step (MouseUp vp sel) w = w\<lparr> app := handleTextSelection vp sel (app w) \<rparr>"
| "step (MouseDown contains) w = w\<lparr> app := handleClickOutside contains (app w) \<rparr>"
| "step SummarizeClick w = perform (summarizeCurrentPage_begin (app w)) w"
| "step (ChangeQuestion q) w = w\<lparr> app := (app w)\<lparr> question := q \<rparr> \<rparr>"
| "step SubmitQuestion w =
     (let (s', es, awaited) = handleQuestionSubmit_begin (app w) in perform (s', es) w)"
| "step (SettleText n r) w =
     (if n < length (inflight w) then
        (case inflight w ! n of
           PendingAnalyze \<Rightarrow> perform (summarizeCurrentPage_resume r (app w)) (settle n w)
         | PendingAsk \<Rightarrow> perform (handleQuestionSubmit_resume r (app w)) (settle n w)
         | PendingTabs \<Rightarrow> w)
      else w)"
| "step (SettleTabs n r) w =
     (if n < length (inflight w) then
        (case inflight w ! n of
           PendingTabs \<Rightarrow> (settle n w)\<lparr> app := getCurrentUrl_resume r (app w) \<rparr>
         | _ \<Rightarrow> w)
      else w)"
| "step DefineClick w = w"
| "step ExplainClick w = w"
| "step (SearchDone a) w = w\<lparr> app := handleSearch a (app w) \<rparr>"
| "step ToggleDarkModeClick w = perform (toggleDarkMode (app w)) w"
| "step FocusClick w = w\<lparr> app := (app w)\<lparr> showFocusModal := True \<rparr> \<rparr>"
| "step FocusClose w = w\<lparr> app := (app w)\<lparr> showFocusModal := False \<rparr> \<rparr>"
| "step (ScopeSelect sc) w = w\<lparr> app := (app w)\<lparr> searchScope := sc \<rparr> \<rparr>"

fun run :: "event list \<Rightarrow> world \<Rightarrow> world" where
  "run [] w = w"
| "run (e # es) w = run es (step e w)"

fun is_search :: "event \<Rightarrow> bool" where
  "is_search (SearchDone a) = True"
| "is_search _ = False"

text \<open>
  \<open>blanks_answer e w\<close>: the event settles a question in flight with the empty string
  as its response, which is the one way \<open>answer\<close> is set back to empty.
  \<open>never_blank evs w\<close>: no event of the run from \<open>w\<close> does so.
\<close>

fun blanks_answer :: "event \<Rightarrow> world \<Rightarrow> bool" where
  "blanks_answer (SettleText n (Resolved response)) w =
     (n < length (inflight w) \<and> inflight w ! n = PendingAsk \<and> response = [])"
| "blanks_answer _ w = False"

fun never_blank :: "event list \<Rightarrow> world \<Rightarrow> bool" where
  "never_blank [] w = True"
| "never_blank (e # es) w = (\<not> blanks_answer e w \<and> never_blank es (step e w))"

section \<open>Auxiliary predicates\<close>

text \<open>The invariant of the popup state, as a predicate on the popup record.\<close>

definition popup_ok :: "selection_popup \<Rightarrow> bool" where
  "popup_ok p = (\<not> visible p \<or> (position p \<noteq> None \<and> popup_text p \<noteq> []))"

text \<open>
  The gating of the loading indicator as the specification words it in P6, to be compared
  with \<open>render\<close>: each kind of indicator looks at the content of its own slot, the search
  kind at the search answer, the define and elaborate kinds (narrower forms of a question)
  at the answer. The panel has a single \<open>loading\<close> flag, which stands for the flag of
  every slot.
\<close>

fun slot_content :: "answer_type \<Rightarrow> app_state \<Rightarrow> jsstring" where
  "slot_content Search s = searchAnswer s"
| "slot_content Define s = answer s"
| "slot_content Elaborate s = answer s"

definition spec_indicator_shown :: "answer_type \<Rightarrow> app_state \<Rightarrow> bool" where
  "spec_indicator_shown K s = (loading s \<and> answerType s = Some K \<and> slot_content K s = [])"

section \<open>Basic facts\<close>

lemma js_not_Nil: "js (c # cs) \<noteq> []"
  by (simp add: js_def)

lemma trim_blank: "trim [0x00A0, 0x0020, 0x2003, 0xFEFF] = []"
  by (simp add: trim_def is_ws_def)

lemma trim_word: "trim (js '' word '') = js ''word''"
  by (simp add: trim_def is_ws_def js_def)

lemma trim_plain: "trim (js ''word'') = js ''word''"
  by (simp add: trim_def is_ws_def js_def)

lemma trim_q: "trim (js ''q'') = js ''q''"
  by (simp add: trim_def is_ws_def js_def)

lemma app_perform: "app (perform p w) = fst p"
  by (simp add: perform_def)

lemma app_settle: "app (settle n w) = app w"
  by (simp add: settle_def)

lemma app_step_submit:
  "app (step SubmitQuestion w) = fst (handleQuestionSubmit_begin (app w))"
  by (simp add: app_perform split: prod.splits)

subsection \<open>The popup state is written by the two pointer handlers only\<close>

lemma popup_handleTextSelection:
  "popup_ok (selectionPopup s) \<Longrightarrow> popup_ok (selectionPopup (handleTextSelection vp sel s))"
  by (auto simp: handleTextSelection_def hide_popup_def popup_ok_def split: option.splits)

lemma popup_handleClickOutside:
  "popup_ok (selectionPopup s) \<Longrightarrow> popup_ok (selectionPopup (handleClickOutside c s))"
  by (simp add: handleClickOutside_def hide_popup_def popup_ok_def)

lemma popup_frame:
  "selectionPopup (fst (summarizeCurrentPage_begin s)) = selectionPopup s"
  "selectionPopup (fst (summarizeCurrentPage_resume r s)) = selectionPopup s"
  "selectionPopup (fst (handleQuestionSubmit_begin s)) = selectionPopup s"
  "selectionPopup (fst (handleQuestionSubmit_resume r s)) = selectionPopup s"
  "selectionPopup (getCurrentUrl_resume t s) = selectionPopup s"
  "selectionPopup (handleSearch a s) = selectionPopup s"
  "selectionPopup (fst (toggleDarkMode s)) = selectionPopup s"
  "selectionPopup (fst (mount item s)) = selectionPopup s"
  by (simp_all add: summarizeCurrentPage_begin_def summarizeCurrentPage_resume_def
      handleQuestionSubmit_begin_def handleQuestionSubmit_resume_def getCurrentUrl_resume_def
      getCurrentUrl_begin_def handleSearch_def toggleDarkMode_def mount_def Let_def
      split: settled.splits list.splits option.splits)

lemma popup_step:
  "popup_ok (selectionPopup (app w)) \<Longrightarrow> popup_ok (selectionPopup (app (step e w)))"
  by (cases e)
     (simp_all add: app_perform app_settle app_step_submit popup_frame
        popup_handleTextSelection popup_handleClickOutside
        del: step.simps(6) split: pending.splits)

lemma popup_run:
  "popup_ok (selectionPopup (app w)) \<Longrightarrow> popup_ok (selectionPopup (app (run evs w)))"
  by (induction evs arbitrary: w) (simp_all add: popup_step)

subsection \<open>The answer type is written by the search handler only\<close>

lemma answerType_frame:
  "answerType (fst (summarizeCurrentPage_begin s)) = answerType s"
  "answerType (fst (summarizeCurrentPage_resume r s)) = answerType s"
  "answerType (fst (handleQuestionSubmit_begin s)) = answerType s"
  "answerType (fst (handleQuestionSubmit_resume r s)) = answerType s"
  "answerType (getCurrentUrl_resume t s) = answerType s"
  "answerType (handleTextSelection vp sel s) = answerType s"
  "answerType (handleClickOutside c s) = answerType s"
  "answerType (fst (toggleDarkMode s)) = answerType s"
  "answerType (fst (mount item s)) = answerType s"
  by (simp_all add: summarizeCurrentPage_begin_def summarizeCurrentPage_resume_def
      handleQuestionSubmit_begin_def handleQuestionSubmit_resume_def getCurrentUrl_resume_def
      getCurrentUrl_begin_def handleTextSelection_def handleClickOutside_def hide_popup_def
      toggleDarkMode_def mount_def Let_def
      split: settled.splits list.splits option.splits)

lemma answerType_step:
  "answerType (app (step e w)) = (if is_search e then Some Search else answerType (app w))"
  by (cases e)
     (simp_all add: app_perform app_settle app_step_submit answerType_frame handleSearch_def
        del: step.simps(6) split: pending.splits)

lemma answerType_run:
  "answerType (app (run evs w)) =
     (if \<exists>e \<in> set evs. is_search e then Some Search else answerType (app w))"
  by (induction evs arbitrary: w) (auto simp: answerType_step)

subsection \<open>The answer is written by a resolved question only\<close>

lemma answer_frame:
  "answer (fst (summarizeCurrentPage_begin s)) = answer s"
  "answer (fst (summarizeCurrentPage_resume r s)) = answer s"
  "answer (fst (handleQuestionSubmit_begin s)) = answer s"
  "answer (fst (handleQuestionSubmit_resume Rejected s)) = answer s"
  "answer (fst (handleQuestionSubmit_resume (Resolved a) s)) = a"
  "answer (getCurrentUrl_resume t s) = answer s"
  "answer (handleTextSelection vp sel s) = answer s"
  "answer (handleClickOutside c s) = answer s"
  "answer (handleSearch b s) = answer s"
  "answer (fst (toggleDarkMode s)) = answer s"
  "answer (fst (mount item s)) = answer s"
  by (simp_all add: summarizeCurrentPage_begin_def summarizeCurrentPage_resume_def
      handleQuestionSubmit_begin_def handleQuestionSubmit_resume_def getCurrentUrl_resume_def
      getCurrentUrl_begin_def handleTextSelection_def handleClickOutside_def hide_popup_def
      handleSearch_def toggleDarkMode_def mount_def Let_def
      split: settled.splits list.splits option.splits)

lemma answer_step:
  "answer (app w) \<noteq> [] \<Longrightarrow> \<not> blanks_answer e w \<Longrightarrow> answer (app (step e w)) \<noteq> []"
proof (cases e)
  case (SettleText n r)
  assume "answer (app w) \<noteq> []" and "\<not> blanks_answer e w"
  with SettleText show ?thesis
    by (cases r) (simp_all add: app_perform app_settle answer_frame split: pending.splits)
next
  case SubmitQuestion
  assume "answer (app w) \<noteq> []"
  with SubmitQuestion show ?thesis
    by (simp add: app_step_submit answer_frame del: step.simps(6))
qed (simp_all add: app_perform app_settle answer_frame split: pending.splits)

lemma answer_run:
  "answer (app w) \<noteq> [] \<Longrightarrow> never_blank evs w \<Longrightarrow> answer (app (run evs w)) \<noteq> []"
  by (induction evs arbitrary: w) (simp_all add: answer_step)

section \<open>Loading indicator (C1)\<close>

text \<open>
  C1, as stated: the indicator of kind K is shown iff the loading flag is set, the answer
  type is K and the content of slot K is empty, the search kind testing the search
  answer; and once the content is non-empty the indicator never comes back. Both parts
  fail on the code. After a search result has arrived and a question has been submitted,
  the indicator of kind search is shown although the search answer is not empty: the
  render tests \<open>answer\<close>, whatever the answer type. And after a question has been
  answered, so that \<open>answer\<close> is not empty, a later response that is the empty string
  sets \<open>answer\<close> back to empty, and the next submission shows the indicator again.
\<close>

theorem indicator_search_slot_counterexample:
  "indicator (render (app (run [SearchDone (js ''hit''), ChangeQuestion (js ''q''), SubmitQuestion]
       initial_world))) = Some Search
   \<and> \<not> spec_indicator_shown Search
       (app (run [SearchDone (js ''hit''), ChangeQuestion (js ''q''), SubmitQuestion]
          initial_world))
   \<and> answer (app (run [SearchDone (js ''hit''), ChangeQuestion (js ''q''), SubmitQuestion,
          SettleText 0 (Resolved (js ''a''))] initial_world)) \<noteq> []
   \<and> indicator (render (app (run [SearchDone (js ''hit''), ChangeQuestion (js ''q''),
          SubmitQuestion, SettleText 0 (Resolved (js ''a'')),
          ChangeQuestion (js ''q''), SubmitQuestion, SettleText 0 (Resolved []),
          ChangeQuestion (js ''q''), SubmitQuestion] initial_world))) = Some Search"
  by (simp add: initial_world_def initial_state_def handleSearch_def trim_q js_not_Nil
      handleQuestionSubmit_begin_def handleQuestionSubmit_resume_def perform_def settle_def
      render_def spec_indicator_shown_def)

text \<open>
  C1, amended: the indicator of kind K is shown iff the single loading flag is set, the
  answer type is K and \<open>answer\<close> is empty, for every K. In a state whose \<open>answer\<close>
  is not empty no indicator is shown, whatever the loading flag; submitting a further
  question that passes the guard from such a state sets the loading flag and still shows
  no indicator; and after any sequence of events in which no question in flight resolves
  with the empty string, \<open>answer\<close> is still not empty and no indicator is shown.
\<close>

theorem indicator_gated_by_answer:
  "(indicator (render s) = Some K \<longleftrightarrow> loading s \<and> answerType s = Some K \<and> answer s = [])
   \<and> (answer s \<noteq> [] \<longrightarrow> indicator (render s) = None)
   \<and> (answer s \<noteq> [] \<and> trim (question s) \<noteq> [] \<longrightarrow>
        loading (fst (handleQuestionSubmit_begin s))
        \<and> indicator (render (fst (handleQuestionSubmit_begin s))) = None)
   \<and> (answer (app w) \<noteq> [] \<and> never_blank evs w \<longrightarrow>
        answer (app (run evs w)) \<noteq> []
        \<and> indicator (render (app (run evs w))) = None)"
proof -
  have a: "indicator (render s) = Some K \<longleftrightarrow> loading s \<and> answerType s = Some K \<and> answer s = []"
    by (auto simp: render_def)
  have b: "answer s \<noteq> [] \<longrightarrow> indicator (render s) = None"
    by (simp add: render_def)
  have c: "answer s \<noteq> [] \<and> trim (question s) \<noteq> [] \<longrightarrow>
        loading (fst (handleQuestionSubmit_begin s))
        \<and> indicator (render (fst (handleQuestionSubmit_begin s))) = None"
    by (simp add: render_def handleQuestionSubmit_begin_def)
  have d: "answer (app w) \<noteq> [] \<and> never_blank evs w \<longrightarrow>
        answer (app (run evs w)) \<noteq> []
        \<and> indicator (render (app (run evs w))) = None"
    by (simp add: answer_run render_def)
  from a b c d show ?thesis by blast
qed

theorem indicator_gated_by_answer_witness:
  "answer (initial_state\<lparr> question := js ''q'', answer := js ''old'',
        answerType := Some Search \<rparr>) \<noteq> []
   \<and> trim (question (initial_state\<lparr> question := js ''q'', answer := js ''old'',
        answerType := Some Search \<rparr>)) \<noteq> []
   \<and> loading (fst (handleQuestionSubmit_begin
        (initial_state\<lparr> question := js ''q'', answer := js ''old'',
           answerType := Some Search \<rparr>)))
   \<and> indicator (render (fst (handleQuestionSubmit_begin
        (initial_state\<lparr> question := js ''q'', answer := js ''old'',
           answerType := Some Search \<rparr>)))) = None
   \<and> never_blank [SubmitQuestion, SettleText 0 (Resolved (js ''new'')), ChangeQuestion (js ''q''),
          SubmitQuestion]
        \<lparr> app = initial_state\<lparr> question := js ''q'', answer := js ''old'',
                  answerType := Some Search \<rparr>,
          inflight = [], effects = [] \<rparr>
   \<and> loading (app (run [SubmitQuestion, SettleText 0 (Resolved (js ''new'')),
          ChangeQuestion (js ''q''), SubmitQuestion]
        \<lparr> app = initial_state\<lparr> question := js ''q'', answer := js ''old'',
                  answerType := Some Search \<rparr>,
          inflight = [], effects = [] \<rparr>))
   \<and> indicator (render (app (run [SubmitQuestion, SettleText 0 (Resolved (js ''new'')),
          ChangeQuestion (js ''q''), SubmitQuestion]
        \<lparr> app = initial_state\<lparr> question := js ''q'', answer := js ''old'',
                  answerType := Some Search \<rparr>,
          inflight = [], effects = [] \<rparr>))) = None"
  using indicator_gated_by_answer
    [of "initial_state\<lparr> question := js ''q'', answer := js ''old'',
           answerType := Some Search \<rparr>"
        Search
        "\<lparr> app = initial_state\<lparr> question := js ''q'', answer := js ''old'',
                  answerType := Some Search \<rparr>,
          inflight = [], effects = [] \<rparr>"
        "[SubmitQuestion, SettleText 0 (Resolved (js ''new'')), ChangeQuestion (js ''q''),
          SubmitQuestion]"]
  by (simp add: handleQuestionSubmit_begin_def handleQuestionSubmit_resume_def perform_def
      settle_def trim_q js_not_Nil)

section \<open>Overlapping question submissions (C2)\<close>

text \<open>
  C2: two questions are submitted, the second before the first has settled, and the
  second call resolves first. When the second resolves the answer is its response; when
  the first resolves afterwards the answer is the response of the first. The two calls
  are the last two promises in flight, at indices \<open>n\<close> and \<open>Suc n\<close>.
\<close>

theorem last_write_wins:
  assumes "trim q1 \<noteq> []" and "trim q2 \<noteq> []" and "n = length (inflight w)"
  shows "answer (app (run [ChangeQuestion q1, SubmitQuestion, ChangeQuestion q2, SubmitQuestion,
                           SettleText (Suc n) (Resolved r2)] w)) = r2
       \<and> answer (app (run [ChangeQuestion q1, SubmitQuestion, ChangeQuestion q2, SubmitQuestion,
                           SettleText (Suc n) (Resolved r2), SettleText n (Resolved r1)] w)) = r1"
  using assms
  by (simp add: handleQuestionSubmit_begin_def handleQuestionSubmit_resume_def perform_def
      settle_def nth_append)

theorem last_write_wins_witness:
  "trim (js ''q'') \<noteq> [] \<and> 0 = length (inflight initial_world)
   \<and> answer (app (run [ChangeQuestion (js ''q''), SubmitQuestion, ChangeQuestion (js ''q''), SubmitQuestion,
                       SettleText (Suc 0) (Resolved (js ''second'')),
                       SettleText 0 (Resolved (js ''first''))] initial_world)) = (js ''first'')"
  using last_write_wins [of "(js ''q'')" "(js ''q'')" 0 initial_world "(js ''second'')" "(js ''first'')"]
  by (simp add: trim_q js_not_Nil initial_world_def)

section \<open>Selection popup (C3, C4, C8, C9)\<close>

text \<open>
  C3: in every state reached from the initial one, by any sequence of events, a visible
  popup has a position and a non-empty text.
\<close>

theorem popup_invariant:
  "visible (selectionPopup (app (run evs initial_world))) \<longrightarrow>
     position (selectionPopup (app (run evs initial_world))) \<noteq> None
     \<and> popup_text (selectionPopup (app (run evs initial_world))) \<noteq> []"
proof -
  have "popup_ok (selectionPopup (app initial_world))"
    by (simp add: popup_ok_def initial_world_def initial_state_def)
  then have "popup_ok (selectionPopup (app (run evs initial_world)))"
    by (rule popup_run)
  then show ?thesis
    by (auto simp: popup_ok_def)
qed

theorem popup_invariant_witness:
  "visible (selectionPopup (app (run
       [MouseUp \<lparr> innerWidth = 375, innerHeight = 600 \<rparr>
          (Some \<lparr> sel_text = (js '' word ''),
                  sel_rect = Some \<lparr> rect_left = 100, rect_width = 40,
                                    rect_top = 5, rect_bottom = 25 \<rparr> \<rparr>)]
       initial_world)))
   \<and> position (selectionPopup (app (run
       [MouseUp \<lparr> innerWidth = 375, innerHeight = 600 \<rparr>
          (Some \<lparr> sel_text = (js '' word ''),
                  sel_rect = Some \<lparr> rect_left = 100, rect_width = 40,
                                    rect_top = 5, rect_bottom = 25 \<rparr> \<rparr>)]
       initial_world))) \<noteq> None
   \<and> popup_text (selectionPopup (app (run
       [MouseUp \<lparr> innerWidth = 375, innerHeight = 600 \<rparr>
          (Some \<lparr> sel_text = (js '' word ''),
                  sel_rect = Some \<lparr> rect_left = 100, rect_width = 40,
                                    rect_top = 5, rect_bottom = 25 \<rparr> \<rparr>)]
       initial_world))) \<noteq> []"
  using popup_invariant [of
      "[MouseUp \<lparr> innerWidth = 375, innerHeight = 600 \<rparr>
          (Some \<lparr> sel_text = (js '' word ''),
                  sel_rect = Some \<lparr> rect_left = 100, rect_width = 40,
                                    rect_top = 5, rect_bottom = 25 \<rparr> \<rparr>)]"]
  by (simp add: handleTextSelection_def trim_word js_not_Nil initial_world_def)

text \<open>
  C4, as stated: the anchor's x is clamped to 150 when \<open>x - 150 < 0\<close> and to
  \<open>vw - 150\<close> when \<open>x + 150 > vw\<close>. In a viewport narrower than the popup both
  conditions can hold, and the code then takes the first: with the rectangle
  \<open>{left: 80, width: 40, top: 5, bottom: 25}\<close> in a viewport 200 wide, x is 100 and
  \<open>x + 150 > vw\<close>, yet the published x is 150, not \<open>vw - 150 = 50\<close>.
\<close>

theorem right_clamp_counterexample:
  "rect_left \<lparr> rect_left = 80, rect_width = 40, rect_top = 5, rect_bottom = 25 \<rparr>
      + rect_width \<lparr> rect_left = 80, rect_width = 40, rect_top = 5, rect_bottom = 25 \<rparr> / 2 + 150
      > innerWidth \<lparr> innerWidth = 200, innerHeight = 600 \<rparr>
   \<and> position (selectionPopup (handleTextSelection \<lparr> innerWidth = 200, innerHeight = 600 \<rparr>
        (Some \<lparr> sel_text = (js ''word''),
            sel_rect = Some \<lparr> rect_left = 80, rect_width = 40, rect_top = 5, rect_bottom = 25 \<rparr> \<rparr>)
        initial_state))
     = Some \<lparr> pos_x = 150, pos_y = 35 \<rparr>
   \<and> (150::real) \<noteq> innerWidth \<lparr> innerWidth = 200, innerHeight = 600 \<rparr> - 150"
  by (simp add: handleTextSelection_def anchor_def popupWidth_def popupHeight_def Let_def
      trim_plain js_not_Nil)

text \<open>
  C4, amended: for a selection whose trimmed text is not empty and whose rectangle is
  \<open>r\<close>, the published anchor has \<open>x = rect.left + rect.width / 2\<close>, clamped to 150
  when \<open>x - 150 < 0\<close>, and otherwise to \<open>vw - 150\<close> when \<open>x + 150 > vw\<close>; and
  \<open>y = rect.bottom + 10\<close> when \<open>rect.top < 150\<close>, otherwise \<open>y = rect.top - 10\<close>.
  The published text is the trimmed selection and the popup is visible.
\<close>

theorem anchor_published:
  assumes "sel = Some d" and "trim (sel_text d) \<noteq> []" and "sel_rect d = Some r"
  shows "selectionPopup (handleTextSelection vp sel s) =
           \<lparr> position = Some
               \<lparr> pos_x = (let x = rect_left r + rect_width r / 2 in
                           if x - 150 < 0 then 150
                           else if x + 150 > innerWidth vp then innerWidth vp - 150
                           else x),
                 pos_y = (if rect_top r < 150 then rect_bottom r + 10 else rect_top r - 10) \<rparr>,
             popup_text = trim (sel_text d),
             visible = True \<rparr>"
  using assms
  by (simp add: handleTextSelection_def anchor_def popupWidth_def popupHeight_def Let_def)

theorem anchor_published_witness:
  "trim (sel_text \<lparr> sel_text = (js '' word ''),
            sel_rect = Some \<lparr> rect_left = 100, rect_width = 40, rect_top = 5, rect_bottom = 25 \<rparr> \<rparr>) \<noteq> []
   \<and> selectionPopup (handleTextSelection \<lparr> innerWidth = 375, innerHeight = 600 \<rparr>
        (Some \<lparr> sel_text = (js '' word ''),
            sel_rect = Some \<lparr> rect_left = 100, rect_width = 40, rect_top = 5, rect_bottom = 25 \<rparr> \<rparr>)
        initial_state)
     = \<lparr> position = Some \<lparr> pos_x = 150, pos_y = 35 \<rparr>, popup_text = (js ''word''), visible = True \<rparr>"
  using anchor_published [of
      "Some \<lparr> sel_text = (js '' word ''),
            sel_rect = Some \<lparr> rect_left = 100, rect_width = 40, rect_top = 5, rect_bottom = 25 \<rparr> \<rparr>"
      "\<lparr> sel_text = (js '' word ''),
            sel_rect = Some \<lparr> rect_left = 100, rect_width = 40, rect_top = 5, rect_bottom = 25 \<rparr> \<rparr>"
      "\<lparr> rect_left = 100, rect_width = 40, rect_top = 5, rect_bottom = 25 \<rparr>"
      "\<lparr> innerWidth = 375, innerHeight = 600 \<rparr>" initial_state]
  by (simp add: trim_word js_not_Nil)

text \<open>
  C8: whatever the popup state was, a pointer press whose target is not inside the popup
  element (the element does not contain it, or there is no such element) leaves the popup
  not visible.
\<close>

theorem handleClickOutside_outside_hides:
  "contains = None \<or> contains = Some False \<Longrightarrow>
     visible (selectionPopup (handleClickOutside contains s)) = False"
  by (auto simp: handleClickOutside_def hide_popup_def)

theorem handleClickOutside_outside_hides_witness:
  "(Some False = (None :: bool option) \<or> Some False = Some False)
   \<and> visible (selectionPopup (handleClickOutside (Some False)
      (initial_state\<lparr> selectionPopup := \<lparr> position = Some \<lparr> pos_x = 150, pos_y = 35 \<rparr>,
           popup_text = (js ''word''), visible = True \<rparr> \<rparr>))) = False"
  using handleClickOutside_outside_hides [of "Some False"
      "initial_state\<lparr> selectionPopup := \<lparr> position = Some \<lparr> pos_x = 150, pos_y = 35 \<rparr>,
           popup_text = (js ''word''), visible = True \<rparr> \<rparr>"]
  by simp

text \<open>
  C9: on a pointer release with no selection, or with a selection whose trimmed text is
  empty (white space only, of any kind that \<open>trim\<close> removes), the popup becomes not
  visible and its position and text keep their values.
\<close>

theorem handleTextSelection_empty_hides:
  assumes "\<forall>d. sel = Some d \<longrightarrow> trim (sel_text d) = []"
  shows "visible (selectionPopup (handleTextSelection vp sel s)) = False
       \<and> position (selectionPopup (handleTextSelection vp sel s)) = position (selectionPopup s)
       \<and> popup_text (selectionPopup (handleTextSelection vp sel s)) = popup_text (selectionPopup s)"
  using assms by (cases sel) (auto simp: handleTextSelection_def hide_popup_def)

theorem handleTextSelection_empty_hides_witness:
  "trim (sel_text \<lparr> sel_text = [0x00A0, 0x0020, 0x2003, 0xFEFF], sel_rect = None \<rparr>) = []
   \<and> selectionPopup (handleTextSelection \<lparr> innerWidth = 375, innerHeight = 600 \<rparr>
        (Some \<lparr> sel_text = [0x00A0, 0x0020, 0x2003, 0xFEFF], sel_rect = None \<rparr>)
        (initial_state\<lparr> selectionPopup := \<lparr> position = Some \<lparr> pos_x = 150, pos_y = 35 \<rparr>,
           popup_text = (js ''word''), visible = True \<rparr> \<rparr>))
     = \<lparr> position = Some \<lparr> pos_x = 150, pos_y = 35 \<rparr>, popup_text = (js ''word''), visible = False \<rparr>"
  using handleTextSelection_empty_hides [of
      "Some \<lparr> sel_text = [0x00A0, 0x0020, 0x2003, 0xFEFF], sel_rect = None \<rparr>"
      "\<lparr> innerWidth = 375, innerHeight = 600 \<rparr>"
      "initial_state\<lparr> selectionPopup := \<lparr> position = Some \<lparr> pos_x = 150, pos_y = 35 \<rparr>,
           popup_text = (js ''word''), visible = True \<rparr> \<rparr>"]
  by (simp add: trim_blank handleTextSelection_def hide_popup_def)

section \<open>Query lifecycle (C5, C6, C7)\<close>

text \<open>
  C5: a collaborator call that fails leaves every state cell as it was, the slot's content
  among them, except that \<open>loading\<close> (and for the summary \<open>isSummarizing\<close>) ends
  false; the failure goes to the console and nothing else is produced. This holds for
  the second part of each handler alone, from any state, and for a whole run of the
  handler (for the question, one that passes the guard and so makes the call).
\<close>

theorem failure_preserves_content:
  "handleQuestionSubmit_resume Rejected s
     = (s\<lparr> loading := False \<rparr>, [ConsoleError ''Error getting answer:''])
   \<and> summarizeCurrentPage_resume Rejected s
       = (s\<lparr> loading := False, isSummarizing := False \<rparr>,
          [ConsoleError ''Error analyzing page:''])
   \<and> summarizeCurrentPage Rejected s
       = (s\<lparr> loading := False, isSummarizing := False \<rparr>,
          [CallAnalyzeCurrentPage, ConsoleError ''Error analyzing page:''])
   \<and> (trim (question s) \<noteq> [] \<longrightarrow>
        handleQuestionSubmit Rejected s
          = (s\<lparr> loading := False \<rparr>,
             [PreventDefault, CallAskQuestion (question s) (searchScope s),
              ConsoleError ''Error getting answer:'']))"
  by (simp add: summarizeCurrentPage_begin_def summarizeCurrentPage_resume_def
      summarizeCurrentPage_def handleQuestionSubmit_begin_def handleQuestionSubmit_resume_def
      handleQuestionSubmit_def)

theorem failure_preserves_content_witness:
  "trim (question (initial_state\<lparr> question := (js ''q''), answer := (js ''old''), loading := True \<rparr>)) \<noteq> []
   \<and> answer (fst (handleQuestionSubmit Rejected
        (initial_state\<lparr> question := (js ''q''), answer := (js ''old''), loading := True \<rparr>))) = (js ''old'')
   \<and> loading (fst (handleQuestionSubmit Rejected
        (initial_state\<lparr> question := (js ''q''), answer := (js ''old''), loading := True \<rparr>))) = False"
  using failure_preserves_content
    [of "initial_state\<lparr> question := (js ''q''), answer := (js ''old''), loading := True \<rparr>"]
  by (simp add: trim_q js_not_Nil)

text \<open>
  C6: neither part of a summarize operation, nor the whole of it, on success or failure,
  changes \<open>answer\<close> or \<open>searchAnswer\<close>; neither part of a question submission, nor the
  whole of it, changes \<open>summary\<close>, \<open>isSummarized\<close> or \<open>searchAnswer\<close>.
\<close>

theorem slot_independence:
  "answer (fst (summarizeCurrentPage_begin s)) = answer s
   \<and> searchAnswer (fst (summarizeCurrentPage_begin s)) = searchAnswer s
   \<and> answer (fst (summarizeCurrentPage_resume r s)) = answer s
   \<and> searchAnswer (fst (summarizeCurrentPage_resume r s)) = searchAnswer s
   \<and> answer (fst (summarizeCurrentPage r s)) = answer s
   \<and> searchAnswer (fst (summarizeCurrentPage r s)) = searchAnswer s
   \<and> summary (fst (handleQuestionSubmit_begin s)) = summary s
   \<and> isSummarized (fst (handleQuestionSubmit_begin s)) = isSummarized s
   \<and> searchAnswer (fst (handleQuestionSubmit_begin s)) = searchAnswer s
   \<and> summary (fst (handleQuestionSubmit_resume r s)) = summary s
   \<and> isSummarized (fst (handleQuestionSubmit_resume r s)) = isSummarized s
   \<and> searchAnswer (fst (handleQuestionSubmit_resume r s)) = searchAnswer s
   \<and> summary (fst (handleQuestionSubmit r s)) = summary s
   \<and> isSummarized (fst (handleQuestionSubmit r s)) = isSummarized s
   \<and> searchAnswer (fst (handleQuestionSubmit r s)) = searchAnswer s"
  by (cases r) (simp_all add: summarizeCurrentPage_begin_def summarizeCurrentPage_resume_def
      summarizeCurrentPage_def handleQuestionSubmit_begin_def handleQuestionSubmit_resume_def
      handleQuestionSubmit_def)

text \<open>
  C7: when the question is empty after trimming, the submission returns at the guard:
  the state is returned as it is, whatever the collaborator would have answered, and no
  call of \<open>askQuestion\<close> is among the effects (only \<open>preventDefault\<close> is performed).
\<close>

theorem handleQuestionSubmit_blank_noop:
  assumes "trim (question s) = []"
  shows "handleQuestionSubmit_begin s = (s, [PreventDefault], False)
       \<and> fst (handleQuestionSubmit r s) = s
       \<and> (\<forall>q sc. CallAskQuestion q sc \<notin> set (snd (handleQuestionSubmit r s)))"
  using assms by (simp add: handleQuestionSubmit_begin_def handleQuestionSubmit_def)

theorem handleQuestionSubmit_blank_noop_witness:
  "trim (question (initial_state\<lparr> question := [0x00A0, 0x0020, 0x2003, 0xFEFF], answer := (js ''old'') \<rparr>)) = []
   \<and> fst (handleQuestionSubmit (Resolved (js ''new''))
        (initial_state\<lparr> question := [0x00A0, 0x0020, 0x2003, 0xFEFF], answer := (js ''old'') \<rparr>))
       = initial_state\<lparr> question := [0x00A0, 0x0020, 0x2003, 0xFEFF], answer := (js ''old'') \<rparr>"
  using handleQuestionSubmit_blank_noop
    [of "initial_state\<lparr> question := [0x00A0, 0x0020, 0x2003, 0xFEFF], answer := (js ''old'') \<rparr>" "Resolved (js ''new'')"]
  by (simp add: trim_blank)

section \<open>Answer type (C10)\<close>

text \<open>
  C10: in every state reached from the initial one the answer type is null or search; a
  question submission leaves it as it is; and as long as no search result has been
  delivered it is null, so that no loading indicator is rendered.
\<close>

theorem answerType_null_or_search:
  "answerType (app (run evs initial_world)) \<in> {None, Some Search}
   \<and> answerType (fst (handleQuestionSubmit r s)) = answerType s
   \<and> ((\<forall>e \<in> set evs. \<not> is_search e) \<longrightarrow>
        answerType (app (run evs initial_world)) = None
        \<and> indicator (render (app (run evs initial_world))) = None)"
proof -
  have init: "answerType (app initial_world) = None"
    by (simp add: initial_world_def initial_state_def)
  have a: "answerType (app (run evs initial_world)) \<in> {None, Some Search}"
    by (simp add: answerType_run init)
  have b: "answerType (fst (handleQuestionSubmit r s)) = answerType s"
    by (simp add: handleQuestionSubmit_def handleQuestionSubmit_begin_def
        handleQuestionSubmit_resume_def split: settled.splits)
  have c: "(\<forall>e \<in> set evs. \<not> is_search e) \<longrightarrow>
        answerType (app (run evs initial_world)) = None
        \<and> indicator (render (app (run evs initial_world))) = None"
    by (simp add: answerType_run init render_def)
  from a b c show ?thesis by blast
qed

theorem answerType_null_or_search_witness:
  "\<not> is_search (Mount None) \<and> \<not> is_search (ChangeQuestion (js ''q'')) \<and> \<not> is_search SubmitQuestion
   \<and> loading (app (run [Mount None, ChangeQuestion (js ''q''), SubmitQuestion] initial_world))
   \<and> answerType (app (run [Mount None, ChangeQuestion (js ''q''), SubmitQuestion] initial_world)) = None
   \<and> indicator (render (app (run [Mount None, ChangeQuestion (js ''q''), SubmitQuestion]
        initial_world))) = None"
  using answerType_null_or_search [of "[Mount None, ChangeQuestion (js ''q''), SubmitQuestion]"]
  by (simp add: initial_world_def initial_state_def mount_def summarizeCurrentPage_begin_def
      getCurrentUrl_begin_def handleQuestionSubmit_begin_def perform_def trim_q js_not_Nil)

end
